theory Spec2Isabelle
  imports Complex_Main
begin

section \<open>Values of the host language\<close>

text \<open>
  Numbers are modelled as exact rationals: rounding, infinities and negative zero of the
  host's floating point are outside the model. A local variable that was declared but
  never assigned holds \<open>Undefined\<close>; arithmetic on it gives \<open>NaN\<close>.
\<close>

datatype jsnum = Undefined | NaN | Num rat

text \<open>Binary \<open>+\<close> on two operands that are numbers or \<open>undefined\<close>.\<close>

fun js_add :: "jsnum \<Rightarrow> jsnum \<Rightarrow> jsnum" where
  "js_add (Num a) (Num b) = Num (a + b)"
| "js_add _ _ = NaN"

text \<open>The comparison \<open>>\<close>: false as soon as one side is not a number.\<close>

fun js_gt :: "jsnum \<Rightarrow> jsnum \<Rightarrow> bool" where
  "js_gt (Num a) (Num b) = (b < a)"
| "js_gt _ _ = False"

fun Math_max :: "jsnum \<Rightarrow> jsnum \<Rightarrow> jsnum" where
  "Math_max (Num a) (Num b) = Num (max a b)"
| "Math_max _ _ = NaN"

text \<open>
  The strings the component assigns to a style property are \<open>'auto'\<close> and a number
  followed by \<open>'px'\<close>. The style object keeps a property as it is when the assigned
  string is not a value of that property, which is the case for \<open>'undefinedpx'\<close> and
  \<open>'NaNpx'\<close>.
\<close>

datatype css_text = Keyword_auto | Suffix_px jsnum

datatype css = Unset | Auto | Px rat

fun parse_css :: "css_text \<Rightarrow> css option" where
  "parse_css Keyword_auto = Some Auto"
| "parse_css (Suffix_px (Num r)) = Some (Px r)"
| "parse_css (Suffix_px _) = None"

definition assign :: "css \<Rightarrow> css_text \<Rightarrow> css" where
  "assign old s = (case parse_css s of Some v \<Rightarrow> v | None \<Rightarrow> old)"

section \<open>Data model\<close>

type_synonym node = nat

text \<open>A string of text content, as a list of UTF-16 code units.\<close>

type_synonym js_string = "nat list"

datatype error = TypeError | SyntaxError

text \<open>
  A function object made by \<open>bind\<close>: each call of \<open>bind\<close> gives a new object, told apart
  from the earlier ones by its serial number.
\<close>

datatype handler = BoundShow nat | BoundHide nat

type_synonym listener = "node \<times> string \<times> handler"

record rect =
  rect_left :: rat
  rect_top :: rat
  rect_width :: rat
  rect_height :: rat

record css_style =
  style_left :: css
  style_right :: css
  style_top :: css
  style_bottom :: css

text \<open>
  The element. A leading underscore of the source is written \<open>priv_\<close>. The property
  \<open>for\<close> is \<open>for_attr\<close>; \<open>tooltip_classList\<close> is the class list of the inner box
  \<open>#tooltip\<close>; \<open>listeners\<close> is the table of the event listeners registered on the nodes of
  the document; \<open>binds\<close> counts the calls of \<open>bind\<close> so far.
\<close>

record tooltip =
  for_attr :: "string option"
  position :: string
  fitToVisibleBounds :: bool
  offset :: rat
  priv_showing :: bool
  priv_target :: "node option"
  priv_boundShow :: "handler option"
  priv_boundHide :: "handler option"
  tooltip_classList :: "string list"
  style :: css_style
  listeners :: "listener list"
  binds :: nat

text \<open>
  What the element reads from the document and the window when a method runs:
  \<open>parentNode\<close> is \<open>None\<close> for \<open>null\<close>; \<open>querySelector\<close> is the document's, with its
  exception when there is one; \<open>host\<close> is \<open>None\<close> on a fragment that has no host;
  \<open>getEffectiveChildNodes\<close> gives the text contents of the effective child nodes, for
  a call of the method of that name that returns; \<open>offsetParent\<close> is the bounding rectangle
  of the offset parent, \<open>None\<close> when there is none; \<open>getBoundingClientRect\<close> gives the
  rectangle of a node and \<open>thisRect\<close> that of the tooltip. The element is taken after
  its template has been stamped, so that the inner box exists.
\<close>

record env =
  this_node :: node
  parentNode :: "node option"
  getRootNode :: "node \<Rightarrow> node"
  querySelector :: "node \<Rightarrow> string \<Rightarrow> error + node option"
  isDocumentFragment :: "node \<Rightarrow> bool"
  host :: "node \<Rightarrow> node option"
  textContent :: js_string
  getEffectiveChildNodes :: "js_string list"
  offsetParent :: "rect option"
  getBoundingClientRect :: "node \<Rightarrow> rect"
  thisRect :: rect
  innerWidth :: rat
  innerHeight :: rat

text \<open>
  The state of the element together with an exception, when a method ends by one.
\<close>

datatype 's outcome = Normal 's | Thrown error 's

text \<open>The state in which a method ends, by a return or by an exception.\<close>

fun state_of :: "'s outcome \<Rightarrow> 's" where
  "state_of (Normal s) = s"
| "state_of (Thrown err s) = s"

section \<open>Position calculator\<close>

text \<open>
  The \<open>switch\<close> of \<open>updatePosition\<close>: the values of \<open>tooltipLeft\<close> and \<open>tooltipTop\<close>
  after it. It has no \<open>default\<close> case.
\<close>

definition tooltipLeftTop :: "string \<Rightarrow> rat \<Rightarrow> rect \<Rightarrow> rect \<Rightarrow> rect \<Rightarrow> jsnum \<times> jsnum" where
  "tooltipLeftTop pos offs parentRect targetRect tRect =
     (let horizontalCenterOffset = (rect_width targetRect - rect_width tRect) / 2;
          verticalCenterOffset = (rect_height targetRect - rect_height tRect) / 2;
          targetLeft = rect_left targetRect - rect_left parentRect;
          targetTop = rect_top targetRect - rect_top parentRect
      in if pos = ''top'' then
           (Num (targetLeft + horizontalCenterOffset),
            Num (targetTop - rect_height tRect - offs))
         else if pos = ''bottom'' then
           (Num (targetLeft + horizontalCenterOffset),
            Num (targetTop + rect_height targetRect + offs))
         else if pos = ''left'' then
           (Num (targetLeft - rect_width tRect - offs),
            Num (targetTop + verticalCenterOffset))
         else if pos = ''right'' then
           (Num (targetLeft + rect_width targetRect + offs),
            Num (targetTop + verticalCenterOffset))
         else (Undefined, Undefined))"

definition updatePosition :: "env \<Rightarrow> tooltip \<Rightarrow> tooltip" where
  "updatePosition e t =
     (case priv_target t of
        None \<Rightarrow> t
      | Some tg \<Rightarrow>
         (case offsetParent e of
            None \<Rightarrow> t
          | Some parentRect \<Rightarrow>
             (let targetRect = getBoundingClientRect e tg;
                  tRect = thisRect e;
                  (tooltipLeft, tooltipTop) =
                     tooltipLeftTop (position t) (offset t) parentRect targetRect tRect;
                  st = style t
              in if fitToVisibleBounds t then
                   (let st1 =
                          (if js_gt (js_add (js_add (Num (rect_left parentRect)) tooltipLeft)
                                            (Num (rect_width tRect)))
                                    (Num (innerWidth e))
                           then st\<lparr>style_right := assign (style_right st) (Suffix_px (Num 0)),
                                   style_left := assign (style_left st) Keyword_auto\<rparr>
                           else st\<lparr>style_left := assign (style_left st)
                                                      (Suffix_px (Math_max (Num 0) tooltipLeft)),
                                   style_right := assign (style_right st) Keyword_auto\<rparr>);
                        st2 =
                          (if js_gt (js_add (js_add (Num (rect_top parentRect)) tooltipTop)
                                            (Num (rect_height tRect)))
                                    (Num (innerHeight e))
                           then st1\<lparr>style_bottom := assign (style_bottom st1)
                                                         (Suffix_px (Num (rect_height parentRect))),
                                    style_top := assign (style_top st1) Keyword_auto\<rparr>
                           else st1\<lparr>style_top := assign (style_top st1)
                                                      (Suffix_px (Math_max (Num (- rect_top parentRect))
                                                                           tooltipTop)),
                                    style_bottom := assign (style_bottom st1) Keyword_auto\<rparr>)
                    in t\<lparr>style := st2\<rparr>)
                 else
                   t\<lparr>style := st\<lparr>style_left := assign (style_left st) (Suffix_px tooltipLeft),
                                   style_top := assign (style_top st) (Suffix_px tooltipTop)\<rparr>\<rparr>)))"

section \<open>The class and its base class\<close>

text \<open>
  The base class \<open>PolymerElement\<close> is imported from the framework. The model takes from
  it which lifecycle methods it has; the framework's own work in them is not modelled, so
  that running one leaves the fields of the model as they are. The other methods of the
  base class are not called by the code and are left out; none of them is named
  \<open>disconnectCallback\<close> or \<open>getEffectiveChildNodes\<close> (the latter belongs to the legacy
  element of the framework, which \<open>PolymerElement\<close> does not include).
\<close>

definition PolymerElement_methods :: "string list" where
  "PolymerElement_methods =
     [''connectedCallback'', ''disconnectedCallback'', ''attributeChangedCallback'', ''ready'']"

text \<open>
  The names that the class body of \<open>TooltipElement\<close> declares on its instances, in the
  order of the source.
\<close>

definition TooltipElement_members :: "string list" where
  "TooltipElement_members =
     [''target'', ''constructor'', ''connectedCallback'', ''disconnectCallback'', ''show'',
      ''toggleClass'', ''hide'', ''updatePosition'', ''_addListeners'', ''_findTarget'',
      ''_removeListeners'']"

text \<open>
  A method can be called on the element when the class body or the base class has it;
  calling any other name is a \<open>TypeError\<close>.
\<close>

definition has_method :: "string \<Rightarrow> bool" where
  "has_method name \<longleftrightarrow>
     name \<in> set TooltipElement_members \<or> name \<in> set PolymerElement_methods"

section \<open>Visibility\<close>

text \<open>
  \<open>trim\<close> removes the white space and the line terminators of the language from both
  ends of a string.
\<close>

definition isWhiteSpace :: "nat \<Rightarrow> bool" where
  "isWhiteSpace c \<longleftrightarrow>
     c \<in> {9, 10, 11, 12, 13, 32, 160, 5760, 8232, 8233, 8239, 8287, 12288, 65279}
     \<or> (8192 \<le> c \<and> c \<le> 8202)"

definition trim :: "js_string \<Rightarrow> js_string" where
  "trim s = rev (dropWhile isWhiteSpace (rev (dropWhile isWhiteSpace s)))"

text \<open>
  The loop of \<open>show\<close> over the effective child nodes, given by their text contents: the
  value of \<open>allChildrenEmpty\<close> after it.
\<close>

fun allChildrenEmpty :: "js_string list \<Rightarrow> bool" where
  "allChildrenEmpty [] = True"
| "allChildrenEmpty (c # cs) = (if trim c \<noteq> [] then False else allChildrenEmpty cs)"

text \<open>
  \<open>toggleClass\<close> on the class list of its node; the second argument is \<open>None\<close> when the
  call has one argument only.
\<close>

definition toggleClass :: "string \<Rightarrow> bool option \<Rightarrow> string list \<Rightarrow> string list" where
  "toggleClass name b classList =
     (let bool = (case b of None \<Rightarrow> name \<notin> set classList | Some v \<Rightarrow> v)
      in if bool then (if name \<in> set classList then classList else classList @ [name])
         else removeAll name classList)"

text \<open>
  \<open>show\<close>. When the text content is empty after trimming, it calls
  \<open>this.getEffectiveChildNodes()\<close>; neither the class body nor the base class has a
  method of that name, so the call is a \<open>TypeError\<close>, raised before any field has
  changed, and the loop over the children never runs.
\<close>

definition show_tooltip :: "env \<Rightarrow> tooltip \<Rightarrow> tooltip outcome" where
  "show_tooltip e t =
     (let shown = updatePosition e
                    (t\<lparr>priv_showing := True,
                       tooltip_classList :=
                         toggleClass ''hidden'' (Some False) (tooltip_classList t)\<rparr>)
      in if priv_showing t then Normal t
         else if trim (textContent e) = [] then
           (if has_method ''getEffectiveChildNodes'' then
              (if allChildrenEmpty (getEffectiveChildNodes e) then Normal t else Normal shown)
            else Thrown TypeError t)
         else Normal shown)"

definition hide_tooltip :: "tooltip \<Rightarrow> tooltip" where
  "hide_tooltip t =
     (if \<not> priv_showing t then t
      else t\<lparr>priv_showing := False,
             tooltip_classList := toggleClass ''hidden'' (Some True) (tooltip_classList t)\<rparr>)"

section \<open>Target resolution and event wiring\<close>

text \<open>
  Registering a listener that is already registered on the node for the event changes
  nothing, and so does registering or removing \<open>undefined\<close>.
\<close>

definition addEventListener :: "node \<Rightarrow> string \<Rightarrow> handler option \<Rightarrow> listener list \<Rightarrow> listener list" where
  "addEventListener n ty cb ls =
     (case cb of
        None \<Rightarrow> ls
      | Some h \<Rightarrow> if (n, ty, h) \<in> set ls then ls else ls @ [(n, ty, h)])"

definition removeEventListener :: "node \<Rightarrow> string \<Rightarrow> handler option \<Rightarrow> listener list \<Rightarrow> listener list" where
  "removeEventListener n ty cb ls =
     (case cb of None \<Rightarrow> ls | Some h \<Rightarrow> removeAll (n, ty, h) ls)"

text \<open>
  The getter \<open>target\<close>. Reading \<open>getRootNode\<close> of a parent that is \<open>null\<close> is a
  \<open>TypeError\<close>; \<open>querySelector\<close> is the document's.
\<close>

definition target :: "env \<Rightarrow> tooltip \<Rightarrow> error + node option" where
  "target e t =
     (case parentNode e of
        None \<Rightarrow> Inl TypeError
      | Some p \<Rightarrow>
         (let ownerRoot = getRootNode e p
          in case for_attr t of
               Some (c # cs) \<Rightarrow> querySelector e ownerRoot (''#'' @ c # cs)
             | _ \<Rightarrow> Inr (if isDocumentFragment e p then host e ownerRoot else Some p)))"

definition priv_addListeners :: "env \<Rightarrow> tooltip \<Rightarrow> tooltip" where
  "priv_addListeners e t =
     (let ls = (case priv_target t of
                  None \<Rightarrow> listeners t
                | Some tg \<Rightarrow>
                   addEventListener tg ''tap'' (priv_boundHide t)
                  (addEventListener tg ''blur'' (priv_boundHide t)
                  (addEventListener tg ''mouseleave'' (priv_boundHide t)
                  (addEventListener tg ''focus'' (priv_boundShow t)
                  (addEventListener tg ''mouseenter'' (priv_boundShow t) (listeners t))))))
      in t\<lparr>listeners := addEventListener (this_node e) ''mouseenter'' (priv_boundHide t) ls\<rparr>)"

definition priv_removeListeners :: "env \<Rightarrow> tooltip \<Rightarrow> tooltip" where
  "priv_removeListeners e t =
     (let ls = (case priv_target t of
                  None \<Rightarrow> listeners t
                | Some tg \<Rightarrow>
                   removeEventListener tg ''tap'' (priv_boundHide t)
                  (removeEventListener tg ''blur'' (priv_boundHide t)
                  (removeEventListener tg ''mouseleave'' (priv_boundHide t)
                  (removeEventListener tg ''focus'' (priv_boundShow t)
                  (removeEventListener tg ''mouseenter'' (priv_boundShow t) (listeners t))))))
      in t\<lparr>listeners := removeEventListener (this_node e) ''mouseenter'' (priv_boundHide t) ls\<rparr>)"

definition priv_findTarget :: "env \<Rightarrow> tooltip \<Rightarrow> tooltip outcome" where
  "priv_findTarget e t =
     (let t1 = priv_removeListeners e t
      in case target e t1 of
           Inl err \<Rightarrow> Thrown err t1
         | Inr tg \<Rightarrow> Normal (priv_addListeners e (t1\<lparr>priv_target := tg\<rparr>)))"

text \<open>
  The property \<open>for\<close> has \<open>_findTarget\<close> as its observer: the framework runs it when the
  value of the property changes.
\<close>

definition set_for :: "string option \<Rightarrow> env \<Rightarrow> tooltip \<Rightarrow> tooltip outcome" where
  "set_for v e t = (if v = for_attr t then Normal t else priv_findTarget e (t\<lparr>for_attr := v\<rparr>))"

section \<open>Lifecycle\<close>

text \<open>
  A call through \<open>super\<close>: calling a method that the base class does not have is a
  \<open>TypeError\<close>.
\<close>

definition super_call :: "string \<Rightarrow> tooltip \<Rightarrow> tooltip outcome" where
  "super_call name t =
     (if name \<in> set PolymerElement_methods then Normal t else Thrown TypeError t)"

fun and_then :: "'s outcome \<Rightarrow> ('s \<Rightarrow> 's outcome) \<Rightarrow> 's outcome" where
  "and_then (Normal s) f = f s"
| "and_then (Thrown err s) f = Thrown err s"

definition connectedCallback :: "env \<Rightarrow> tooltip \<Rightarrow> tooltip outcome" where
  "connectedCallback e t =
     and_then (super_call ''connectedCallback'' t)
       (\<lambda>t0. let t1 = t0\<lparr>priv_boundShow := Some (BoundShow (binds t0)), binds := Suc (binds t0)\<rparr>;
                  t2 = t1\<lparr>priv_boundHide := Some (BoundHide (binds t1)), binds := Suc (binds t1)\<rparr>
              in priv_findTarget e t2)"

definition disconnectCallback :: "env \<Rightarrow> tooltip \<Rightarrow> tooltip outcome" where
  "disconnectCallback e t =
     and_then (super_call ''disconnectCallback'' t)
       (\<lambda>t0. Normal (priv_removeListeners e t0))"

text \<open>
  The methods that the class body of \<open>TooltipElement\<close> declares without parameters, by
  name.
\<close>

definition TooltipElement_method :: "string \<Rightarrow> (env \<Rightarrow> tooltip \<Rightarrow> tooltip outcome) option" where
  "TooltipElement_method name =
     (if name = ''connectedCallback'' then Some connectedCallback
      else if name = ''disconnectCallback'' then Some disconnectCallback
      else if name = ''show'' then Some show_tooltip
      else if name = ''hide'' then Some (\<lambda>e t. Normal (hide_tooltip t))
      else if name = ''updatePosition'' then Some (\<lambda>e t. Normal (updatePosition e t))
      else if name = ''_addListeners'' then Some (\<lambda>e t. Normal (priv_addListeners e t))
      else if name = ''_findTarget'' then Some priv_findTarget
      else if name = ''_removeListeners'' then Some (\<lambda>e t. Normal (priv_removeListeners e t))
      else None)"

text \<open>
  The custom-element lifecycle of the browser: on attach it calls the method
  \<open>connectedCallback\<close> of the element, on detach the method \<open>disconnectedCallback\<close>. The
  method of the class body runs when it declares one of that name, the inherited one
  otherwise.
\<close>

datatype reaction = Attach | Detach

definition reaction_callback :: "reaction \<Rightarrow> string" where
  "reaction_callback r =
     (case r of Attach \<Rightarrow> ''connectedCallback'' | Detach \<Rightarrow> ''disconnectedCallback'')"

definition lifecycle :: "reaction \<Rightarrow> env \<Rightarrow> tooltip \<Rightarrow> tooltip outcome" where
  "lifecycle r e t =
     (case TooltipElement_method (reaction_callback r) of
        Some m \<Rightarrow> m e t
      | None \<Rightarrow> super_call (reaction_callback r) t)"

section \<open>The specification's position calculator\<close>

text \<open>
  Section 4.3 of the specification, in its words: the position of the anchor relative to
  the offset parent, the centering offsets, and the placement by side; an unrecognized
  side has no computed placement.
\<close>

definition spec_placement :: "string \<Rightarrow> rect \<Rightarrow> rect \<Rightarrow> rect \<Rightarrow> rat \<Rightarrow> (rat \<times> rat) option" where
  "spec_placement side anchorRect tooltipRect parentRect offsetDistance =
     (let anchorRelLeft = rect_left anchorRect - rect_left parentRect;
          anchorRelTop = rect_top anchorRect - rect_top parentRect;
          dx = (rect_width anchorRect - rect_width tooltipRect) / 2;
          dy = (rect_height anchorRect - rect_height tooltipRect) / 2
      in if side = ''top'' then
           Some (anchorRelLeft + dx, anchorRelTop - rect_height tooltipRect - offsetDistance)
         else if side = ''bottom'' then
           Some (anchorRelLeft + dx, anchorRelTop + rect_height anchorRect + offsetDistance)
         else if side = ''left'' then
           Some (anchorRelLeft - rect_width tooltipRect - offsetDistance, anchorRelTop + dy)
         else if side = ''right'' then
           Some (anchorRelLeft + rect_width anchorRect + offsetDistance, anchorRelTop + dy)
         else None)"

text \<open>
  The clamping of section 4.3, one function for each axis. The horizontal one gives the
  pair of the styles \<open>left\<close> and \<open>right\<close>, the vertical one the pair of \<open>top\<close> and
  \<open>bottom\<close>.
\<close>

definition spec_clamp_horizontal :: "rat \<Rightarrow> rat \<Rightarrow> rat \<Rightarrow> rat \<Rightarrow> css \<times> css" where
  "spec_clamp_horizontal parentLeft computedLeft tooltipWidth viewportWidth =
     (if parentLeft + computedLeft + tooltipWidth > viewportWidth then (Auto, Px 0)
      else (Px (max 0 computedLeft), Auto))"

definition spec_clamp_vertical :: "rat \<Rightarrow> rat \<Rightarrow> rat \<Rightarrow> rat \<Rightarrow> rat \<Rightarrow> css \<times> css" where
  "spec_clamp_vertical parentTop parentHeight computedTop tooltipHeight viewportHeight =
     (if parentTop + computedTop + tooltipHeight > viewportHeight then (Auto, Px parentHeight)
      else (Px (max (- parentTop) computedTop), Auto))"

fun is_px :: "css \<Rightarrow> bool" where
  "is_px (Px r) = True"
| "is_px _ = False"

section \<open>States and scenarios\<close>

text \<open>
  The element as the template and the property defaults make it, before it is attached:
  position \<open>bottom\<close>, offset 14, the class \<open>hidden\<close> on the inner box.
\<close>

definition initial_tooltip :: tooltip where
  "initial_tooltip =
     \<lparr>for_attr = None, position = ''bottom'', fitToVisibleBounds = False, offset = 14,
      priv_showing = False, priv_target = None, priv_boundShow = None, priv_boundHide = None,
      tooltip_classList = [''hidden''],
      style = \<lparr>style_left = Unset, style_right = Unset, style_top = Unset, style_bottom = Unset\<rparr>,
      listeners = [], binds = 0\<rparr>"

text \<open>
  A document for the scenarios: the tooltip is node 0 and the child of node 1; the
  buttons \<open>btnA\<close> and \<open>btnB\<close> are the nodes 2 and 3; node 9 is the document. Every anchor
  has the rectangle of the scenarios of the specification, the tooltip is 60 wide and 24
  high, its offset parent is at the origin, and its text is \<open>Tip\<close>.
\<close>

definition scenario_env :: env where
  "scenario_env =
     \<lparr>this_node = 0, parentNode = Some 1, getRootNode = (\<lambda>n. 9),
      querySelector = (\<lambda>r sel. Inr (if sel = ''#btnA'' then Some 2
                                      else if sel = ''#btnB'' then Some 3 else None)),
      isDocumentFragment = (\<lambda>n. False), host = (\<lambda>n. None),
      textContent = [84, 105, 112], getEffectiveChildNodes = [[84, 105, 112]],
      offsetParent = Some \<lparr>rect_left = 0, rect_top = 0, rect_width = 1024, rect_height = 768\<rparr>,
      getBoundingClientRect =
        (\<lambda>n. \<lparr>rect_left = 100, rect_top = 50, rect_width = 80, rect_height = 20\<rparr>),
      thisRect = \<lparr>rect_left = 0, rect_top = 0, rect_width = 60, rect_height = 24\<rparr>,
      innerWidth = 1024, innerHeight = 768\<rparr>"

text \<open>The state after the first attach in that document: the anchor is the parent.\<close>

definition attached_tooltip :: tooltip where
  "attached_tooltip =
     initial_tooltip
       \<lparr>priv_target := Some 1, priv_boundShow := Some (BoundShow 0),
        priv_boundHide := Some (BoundHide 1),
        listeners := [(1, ''mouseenter'', BoundShow 0), (1, ''focus'', BoundShow 0),
                      (1, ''mouseleave'', BoundHide 1), (1, ''blur'', BoundHide 1),
                      (1, ''tap'', BoundHide 1), (0, ''mouseenter'', BoundHide 1)],
        binds := 2\<rparr>"

text \<open>
  The listeners that \<open>_addListeners\<close> installs for the current anchor and the current
  bound functions.
\<close>

definition installed :: "env \<Rightarrow> tooltip \<Rightarrow> listener set" where
  "installed e t =
     (case priv_boundShow t of
        None \<Rightarrow> {}
      | Some s \<Rightarrow> (case priv_target t of
                    None \<Rightarrow> {}
                  | Some tg \<Rightarrow> {(tg, ''mouseenter'', s), (tg, ''focus'', s)}))
     \<union> (case priv_boundHide t of
          None \<Rightarrow> {}
        | Some h \<Rightarrow> (case priv_target t of
                      None \<Rightarrow> {}
                    | Some tg \<Rightarrow> {(tg, ''mouseleave'', h), (tg, ''blur'', h), (tg, ''tap'', h)})
                   \<union> {(this_node e, ''mouseenter'', h)})"

text \<open>Inputs of the scenarios below.\<close>

definition fitting_tooltip :: tooltip where
  "fitting_tooltip = attached_tooltip\<lparr>fitToVisibleBounds := True\<rparr>"

definition narrow_env :: env where
  "narrow_env = scenario_env\<lparr>innerWidth := 150\<rparr>"

definition low_env :: env where
  "low_env = scenario_env\<lparr>innerHeight := 100\<rparr>"

definition unknown_side_tooltip :: tooltip where
  "unknown_side_tooltip =
     attached_tooltip
       \<lparr>position := ''center'', fitToVisibleBounds := True,
        style := \<lparr>style_left = Auto, style_right = Px 0, style_top = Px 84, style_bottom = Auto\<rparr>\<rparr>"

definition whitespace_env :: env where
  "whitespace_env =
     scenario_env\<lparr>textContent := [32, 10, 9], getEffectiveChildNodes := [[32], [], [10, 160]]\<rparr>"

definition shown_tooltip :: tooltip where
  "shown_tooltip =
     attached_tooltip
       \<lparr>priv_showing := True, tooltip_classList := [],
        style := \<lparr>style_left = Px 110, style_right = Unset, style_top = Px 84, style_bottom = Unset\<rparr>\<rparr>"


definition scrolled_env :: env where
  "scrolled_env =
     scenario_env
       \<lparr>getBoundingClientRect :=
          (\<lambda>n. \<lparr>rect_left = 300, rect_top = 200, rect_width = 80, rect_height = 20\<rparr>)\<rparr>"

definition moved_env :: env where
  "moved_env = scenario_env\<lparr>parentNode := Some 4\<rparr>"

definition reattached_tooltip :: tooltip where
  "reattached_tooltip =
     attached_tooltip
       \<lparr>priv_target := Some 4, priv_boundShow := Some (BoundShow 2),
        priv_boundHide := Some (BoundHide 3),
        listeners := listeners attached_tooltip @
                     [(4, ''mouseenter'', BoundShow 2), (4, ''focus'', BoundShow 2),
                      (4, ''mouseleave'', BoundHide 3), (4, ''blur'', BoundHide 3),
                      (4, ''tap'', BoundHide 3), (0, ''mouseenter'', BoundHide 3)],
        binds := 4\<rparr>"

section \<open>Properties of the position calculator\<close>

text \<open>
  The code's \<open>switch\<close> computes the placement of the specification: a recognized side
  gives the two numbers of section 4.3, any other side leaves both variables undefined.
\<close>

lemma tooltipLeftTop_spec:
  "tooltipLeftTop side d parentRect anchorRect tooltipRect =
     (case spec_placement side anchorRect tooltipRect parentRect d of
        None \<Rightarrow> (Undefined, Undefined)
      | Some (l, tp) \<Rightarrow> (Num l, Num tp))"
  by (simp add: tooltipLeftTop_def spec_placement_def Let_def)

lemma spec_placement_recognized:
  assumes "side \<in> {''top'', ''bottom'', ''left'', ''right''}"
  shows "\<exists>l tp. spec_placement side anchorRect tooltipRect parentRect d = Some (l, tp)"
  using assms by (auto simp: spec_placement_def Let_def)

lemma spec_placement_unrecognized:
  assumes "side \<notin> {''top'', ''bottom'', ''left'', ''right''}"
  shows "spec_placement side anchorRect tooltipRect parentRect d = None"
  using assms by (simp add: spec_placement_def Let_def)

lemma updatePosition_unresolved:
  "priv_target t = None \<or> offsetParent e = None \<Longrightarrow> updatePosition e t = t"
  by (auto simp: updatePosition_def split: option.splits)

lemma updatePosition_unconstrained:
  assumes "priv_target t = Some a" and "offsetParent e = Some parentRect"
    and "\<not> fitToVisibleBounds t"
    and "tooltipLeftTop (position t) (offset t) parentRect (getBoundingClientRect e a) (thisRect e) = (L, T)"
  shows "updatePosition e t =
           t\<lparr>style := (style t)\<lparr>style_left := assign (style_left (style t)) (Suffix_px L),
                                   style_top := assign (style_top (style t)) (Suffix_px T)\<rparr>\<rparr>"
  using assms by (simp add: updatePosition_def Let_def)

lemma updatePosition_fitted:
  assumes "priv_target t = Some a" and "offsetParent e = Some parentRect"
    and "fitToVisibleBounds t"
    and "tooltipLeftTop (position t) (offset t) parentRect (getBoundingClientRect e a) (thisRect e) = (Num l, Num tp)"
  shows "updatePosition e t =
           t\<lparr>style :=
               \<lparr>style_left = fst (spec_clamp_horizontal (rect_left parentRect) l (rect_width (thisRect e)) (innerWidth e)),
                style_right = snd (spec_clamp_horizontal (rect_left parentRect) l (rect_width (thisRect e)) (innerWidth e)),
                style_top = fst (spec_clamp_vertical (rect_top parentRect) (rect_height parentRect) tp (rect_height (thisRect e)) (innerHeight e)),
                style_bottom = snd (spec_clamp_vertical (rect_top parentRect) (rect_height parentRect) tp (rect_height (thisRect e)) (innerHeight e))\<rparr>\<rparr>"
  using assms
  by (simp add: updatePosition_def Let_def assign_def spec_clamp_horizontal_def spec_clamp_vertical_def)

lemma updatePosition_fitted_undefined:
  assumes "priv_target t = Some a" and "offsetParent e = Some parentRect"
    and "fitToVisibleBounds t"
    and "tooltipLeftTop (position t) (offset t) parentRect (getBoundingClientRect e a) (thisRect e) = (Undefined, Undefined)"
  shows "updatePosition e t = t\<lparr>style := (style t)\<lparr>style_right := Auto, style_bottom := Auto\<rparr>\<rparr>"
  using assms
  by (simp add: updatePosition_def Let_def assign_def)

text \<open>
  Claim C1. For every anchor rectangle, tooltip rectangle, offset-parent rectangle and
  offset distance and every side among top, bottom, left and right, \<open>updatePosition\<close>
  computes the placement of section 4.3 of the specification: \<open>tooltipLeft\<close> and
  \<open>tooltipTop\<close> are the two numbers that \<open>spec_placement\<close> gives from the relative anchor
  position, the centering offsets and the formula of the side, and without
  \<open>fitToVisibleBounds\<close> they are written to the styles \<open>left\<close> and \<open>top\<close> as pixel
  lengths, nothing else changing. In the default-placement scenario the result is
  \<open>left = 110\<close> and \<open>top = 84\<close>.
\<close>

theorem updatePosition_follows_spec_arithmetic:
  assumes "position t \<in> {''top'', ''bottom'', ''left'', ''right''}"
    and "priv_target t = Some a" and "offsetParent e = Some parentRect"
  shows "\<exists>l tp.
           spec_placement (position t) (getBoundingClientRect e a) (thisRect e) parentRect (offset t)
             = Some (l, tp)
         \<and> tooltipLeftTop (position t) (offset t) parentRect (getBoundingClientRect e a) (thisRect e)
             = (Num l, Num tp)
         \<and> (\<not> fitToVisibleBounds t \<longrightarrow>
              updatePosition e t = t\<lparr>style := (style t)\<lparr>style_left := Px l, style_top := Px tp\<rparr>\<rparr>)"
proof -
  let ?aR = "getBoundingClientRect e a"
  from assms(1) obtain l tp
    where sp: "spec_placement (position t) ?aR (thisRect e) parentRect (offset t) = Some (l, tp)"
    using spec_placement_recognized by blast
  then have lt: "tooltipLeftTop (position t) (offset t) parentRect ?aR (thisRect e) = (Num l, Num tp)"
    by (simp add: tooltipLeftTop_spec)
  have "updatePosition e t = t\<lparr>style := (style t)\<lparr>style_left := Px l, style_top := Px tp\<rparr>\<rparr>"
    if "\<not> fitToVisibleBounds t"
    using updatePosition_unconstrained [OF assms(2,3) that lt] by (simp add: assign_def)
  with sp lt show ?thesis by blast
qed

theorem updatePosition_default_placement_scenario:
  "position attached_tooltip \<in> {''top'', ''bottom'', ''left'', ''right''}
   \<and> priv_target attached_tooltip = Some 1
   \<and> offsetParent scenario_env
        = Some \<lparr>rect_left = 0, rect_top = 0, rect_width = 1024, rect_height = 768\<rparr>
   \<and> \<not> fitToVisibleBounds attached_tooltip
   \<and> updatePosition scenario_env attached_tooltip
        = attached_tooltip\<lparr>style := (style attached_tooltip)\<lparr>style_left := Px 110, style_top := Px 84\<rparr>\<rparr>"
proof -
  have h1: "position attached_tooltip \<in> {''top'', ''bottom'', ''left'', ''right''}"
    by (simp add: attached_tooltip_def initial_tooltip_def)
  have h2: "priv_target attached_tooltip = Some 1"
    by (simp add: attached_tooltip_def)
  have h3: "offsetParent scenario_env
              = Some \<lparr>rect_left = 0, rect_top = 0, rect_width = 1024, rect_height = 768\<rparr>"
    by (simp add: scenario_env_def)
  have h4: "\<not> fitToVisibleBounds attached_tooltip"
    by (simp add: attached_tooltip_def initial_tooltip_def)
  from updatePosition_follows_spec_arithmetic [OF h1 h2 h3] obtain l tp
    where sp: "spec_placement (position attached_tooltip) (getBoundingClientRect scenario_env 1)
                 (thisRect scenario_env)
                 \<lparr>rect_left = 0, rect_top = 0, rect_width = 1024, rect_height = 768\<rparr>
                 (offset attached_tooltip) = Some (l, tp)"
      and up: "updatePosition scenario_env attached_tooltip
                 = attached_tooltip\<lparr>style := (style attached_tooltip)\<lparr>style_left := Px l, style_top := Px tp\<rparr>\<rparr>"
    using h4 by blast
  from sp have "l = 110" and "tp = 84"
    by (simp_all add: spec_placement_def attached_tooltip_def initial_tooltip_def scenario_env_def)
  with up h1 h2 h3 h4 show ?thesis by simp
qed

text \<open>
  Claim C2. With \<open>fitToVisibleBounds\<close>, a resolved anchor, an offset parent and a
  recognized side, \<open>updatePosition\<close> clamps each axis on its own. The styles \<open>left\<close> and
  \<open>right\<close> are those of \<open>spec_clamp_horizontal\<close>: \<open>right = 0\<close> and \<open>left\<close> auto when
  \<open>parentRect.left + computedLeft + tooltipRect.width\<close> exceeds the viewport width,
  \<open>left = max(0, computedLeft)\<close> and \<open>right\<close> auto otherwise. The styles \<open>top\<close> and
  \<open>bottom\<close> are those of \<open>spec_clamp_vertical\<close>: \<open>bottom = parentRect.height\<close> and \<open>top\<close>
  auto when \<open>parentRect.top + computedTop + tooltipRect.height\<close> exceeds the viewport
  height, \<open>top = max(-parentRect.top, computedTop)\<close> and \<open>bottom\<close> auto otherwise. The
  horizontal pair is a function of the horizontal quantities alone and the vertical pair
  of the vertical ones alone, so neither axis depends on the inputs or the outcome of the
  other. Nothing but the four styles changes.
\<close>

theorem updatePosition_clamps_each_axis:
  assumes "fitToVisibleBounds t"
    and "position t \<in> {''top'', ''bottom'', ''left'', ''right''}"
    and "priv_target t = Some a" and "offsetParent e = Some parentRect"
  shows "\<exists>l tp.
           tooltipLeftTop (position t) (offset t) parentRect (getBoundingClientRect e a) (thisRect e)
             = (Num l, Num tp)
         \<and> (style_left (style (updatePosition e t)), style_right (style (updatePosition e t)))
             = spec_clamp_horizontal (rect_left parentRect) l (rect_width (thisRect e)) (innerWidth e)
         \<and> (style_top (style (updatePosition e t)), style_bottom (style (updatePosition e t)))
             = spec_clamp_vertical (rect_top parentRect) (rect_height parentRect) tp
                 (rect_height (thisRect e)) (innerHeight e)
         \<and> updatePosition e t = t\<lparr>style := style (updatePosition e t)\<rparr>"
proof -
  let ?aR = "getBoundingClientRect e a"
  from assms(2) obtain l tp
    where "spec_placement (position t) ?aR (thisRect e) parentRect (offset t) = Some (l, tp)"
    using spec_placement_recognized by blast
  then have lt: "tooltipLeftTop (position t) (offset t) parentRect ?aR (thisRect e) = (Num l, Num tp)"
    by (simp add: tooltipLeftTop_spec)
  note up = updatePosition_fitted [OF assms(3,4,1) lt]
  have "(style_left (style (updatePosition e t)), style_right (style (updatePosition e t)))
          = spec_clamp_horizontal (rect_left parentRect) l (rect_width (thisRect e)) (innerWidth e)"
    by (simp add: up)
  moreover
  have "(style_top (style (updatePosition e t)), style_bottom (style (updatePosition e t)))
          = spec_clamp_vertical (rect_top parentRect) (rect_height parentRect) tp
              (rect_height (thisRect e)) (innerHeight e)"
    by (simp add: up)
  moreover
  have "updatePosition e t = t\<lparr>style := style (updatePosition e t)\<rparr>"
    by (simp add: up)
  ultimately show ?thesis using lt by blast
qed

theorem updatePosition_clipped_right_edge_scenario:
  "fitToVisibleBounds fitting_tooltip
   \<and> position fitting_tooltip \<in> {''top'', ''bottom'', ''left'', ''right''}
   \<and> priv_target fitting_tooltip = Some 1
   \<and> offsetParent narrow_env
        = Some \<lparr>rect_left = 0, rect_top = 0, rect_width = 1024, rect_height = 768\<rparr>
   \<and> style (updatePosition narrow_env fitting_tooltip)
        = \<lparr>style_left = Auto, style_right = Px 0, style_top = Px 84, style_bottom = Auto\<rparr>"
proof -
  have h1: "fitToVisibleBounds fitting_tooltip"
    by (simp add: fitting_tooltip_def)
  have h2: "position fitting_tooltip \<in> {''top'', ''bottom'', ''left'', ''right''}"
    by (simp add: fitting_tooltip_def attached_tooltip_def initial_tooltip_def)
  have h3: "priv_target fitting_tooltip = Some 1"
    by (simp add: fitting_tooltip_def attached_tooltip_def)
  have h4: "offsetParent narrow_env
              = Some \<lparr>rect_left = 0, rect_top = 0, rect_width = 1024, rect_height = 768\<rparr>"
    by (simp add: narrow_env_def scenario_env_def)
  from updatePosition_clamps_each_axis [OF h1 h2 h3 h4] obtain l tp
    where lt: "tooltipLeftTop (position fitting_tooltip) (offset fitting_tooltip)
                 \<lparr>rect_left = 0, rect_top = 0, rect_width = 1024, rect_height = 768\<rparr>
                 (getBoundingClientRect narrow_env 1) (thisRect narrow_env) = (Num l, Num tp)"
      and hz: "(style_left (style (updatePosition narrow_env fitting_tooltip)),
                style_right (style (updatePosition narrow_env fitting_tooltip)))
                 = spec_clamp_horizontal 0 l (rect_width (thisRect narrow_env)) (innerWidth narrow_env)"
      and vt: "(style_top (style (updatePosition narrow_env fitting_tooltip)),
                style_bottom (style (updatePosition narrow_env fitting_tooltip)))
                 = spec_clamp_vertical 0 768 tp (rect_height (thisRect narrow_env)) (innerHeight narrow_env)"
    by auto
  from lt have "l = 110" and "tp = 84"
    by (simp_all add: tooltipLeftTop_def fitting_tooltip_def attached_tooltip_def
          initial_tooltip_def narrow_env_def scenario_env_def)
  with hz vt have "style_left (style (updatePosition narrow_env fitting_tooltip)) = Auto"
    and "style_right (style (updatePosition narrow_env fitting_tooltip)) = Px 0"
    and "style_top (style (updatePosition narrow_env fitting_tooltip)) = Px 84"
    and "style_bottom (style (updatePosition narrow_env fitting_tooltip)) = Auto"
    by (simp_all add: spec_clamp_horizontal_def spec_clamp_vertical_def narrow_env_def
          scenario_env_def)
  then have "style (updatePosition narrow_env fitting_tooltip)
               = \<lparr>style_left = Auto, style_right = Px 0, style_top = Px 84, style_bottom = Auto\<rparr>"
    by (cases "style (updatePosition narrow_env fitting_tooltip)") simp
  with h1 h2 h3 h4 show ?thesis by simp
qed

text \<open>
  Claim C10. Whenever \<open>updatePosition\<close> runs with a resolved anchor, an offset parent, a
  recognized side and \<open>fitToVisibleBounds\<close>, one of the styles \<open>left\<close> and \<open>right\<close> is a
  pixel length and the other is auto, and one of \<open>top\<close> and \<open>bottom\<close> is a pixel length
  and the other is auto: no axis is left with both of its properties constrained.
\<close>

theorem fitted_one_constraint_per_axis:
  assumes "priv_target t = Some a" and "offsetParent e = Some parentRect"
    and "position t \<in> {''top'', ''bottom'', ''left'', ''right''}"
    and "fitToVisibleBounds t"
  shows "(is_px (style_left (style (updatePosition e t))) \<and> style_right (style (updatePosition e t)) = Auto
          \<or> style_left (style (updatePosition e t)) = Auto \<and> is_px (style_right (style (updatePosition e t))))
       \<and> (is_px (style_top (style (updatePosition e t))) \<and> style_bottom (style (updatePosition e t)) = Auto
          \<or> style_top (style (updatePosition e t)) = Auto \<and> is_px (style_bottom (style (updatePosition e t))))"
proof -
  let ?aR = "getBoundingClientRect e a"
  from assms(3) obtain l tp
    where "spec_placement (position t) ?aR (thisRect e) parentRect (offset t) = Some (l, tp)"
    using spec_placement_recognized by blast
  then have lt: "tooltipLeftTop (position t) (offset t) parentRect ?aR (thisRect e) = (Num l, Num tp)"
    by (simp add: tooltipLeftTop_spec)
  show ?thesis
    by (simp add: updatePosition_fitted [OF assms(1,2,4) lt]
          spec_clamp_horizontal_def spec_clamp_vertical_def)
qed

theorem fitted_one_constraint_per_axis_low_viewport:
  "priv_target fitting_tooltip = Some 1
   \<and> offsetParent low_env
        = Some \<lparr>rect_left = 0, rect_top = 0, rect_width = 1024, rect_height = 768\<rparr>
   \<and> position fitting_tooltip \<in> {''top'', ''bottom'', ''left'', ''right''}
   \<and> fitToVisibleBounds fitting_tooltip
   \<and> style (updatePosition low_env fitting_tooltip)
        = \<lparr>style_left = Px 110, style_right = Auto, style_top = Auto, style_bottom = Px 768\<rparr>
   \<and> (is_px (style_left (style (updatePosition low_env fitting_tooltip)))
        \<and> style_right (style (updatePosition low_env fitting_tooltip)) = Auto
        \<or> style_left (style (updatePosition low_env fitting_tooltip)) = Auto
        \<and> is_px (style_right (style (updatePosition low_env fitting_tooltip))))
   \<and> (is_px (style_top (style (updatePosition low_env fitting_tooltip)))
        \<and> style_bottom (style (updatePosition low_env fitting_tooltip)) = Auto
        \<or> style_top (style (updatePosition low_env fitting_tooltip)) = Auto
        \<and> is_px (style_bottom (style (updatePosition low_env fitting_tooltip))))"
proof -
  have h1: "priv_target fitting_tooltip = Some 1"
    by (simp add: fitting_tooltip_def attached_tooltip_def)
  have h2: "offsetParent low_env
              = Some \<lparr>rect_left = 0, rect_top = 0, rect_width = 1024, rect_height = 768\<rparr>"
    by (simp add: low_env_def scenario_env_def)
  have h3: "position fitting_tooltip \<in> {''top'', ''bottom'', ''left'', ''right''}"
    by (simp add: fitting_tooltip_def attached_tooltip_def initial_tooltip_def)
  have h4: "fitToVisibleBounds fitting_tooltip"
    by (simp add: fitting_tooltip_def)
  have ev: "style (updatePosition low_env fitting_tooltip)
              = \<lparr>style_left = Px 110, style_right = Auto, style_top = Auto, style_bottom = Px 768\<rparr>"
    by (simp add: updatePosition_def tooltipLeftTop_def assign_def Let_def low_env_def
          scenario_env_def fitting_tooltip_def attached_tooltip_def initial_tooltip_def)
  note main = fitted_one_constraint_per_axis [OF h1 h2 h3 h4]
  show ?thesis
    apply (intro conjI)
          apply (rule h1)
         apply (rule h2)
        apply (rule h3)
       apply (rule h4)
      apply (rule ev)
     apply (rule conjunct1 [OF main])
    apply (rule conjunct2 [OF main])
    done
qed

text \<open>
  Claim C5, as amended. For every requested side outside top, bottom, left and right
  there is no default or fallback side: \<open>tooltipLeft\<close> and \<open>tooltipTop\<close> stay undefined
  and \<open>updatePosition\<close> writes no pixel length. Without \<open>fitToVisibleBounds\<close>, or with an
  unresolved anchor or no offset parent, it changes nothing. With \<open>fitToVisibleBounds\<close>, a
  resolved anchor and an offset parent, the styles \<open>left\<close> and \<open>top\<close> keep their values
  and the styles \<open>right\<close> and \<open>bottom\<close> are set to auto.
\<close>

theorem updatePosition_unrecognized_side:
  assumes "position t \<notin> {''top'', ''bottom'', ''left'', ''right''}"
  shows "tooltipLeftTop (position t) d parentRect anchorRect tooltipRect = (Undefined, Undefined)
       \<and> updatePosition e t =
           (if fitToVisibleBounds t \<and> priv_target t \<noteq> None \<and> offsetParent e \<noteq> None
            then t\<lparr>style := (style t)\<lparr>style_right := Auto, style_bottom := Auto\<rparr>\<rparr>
            else t)"
proof -
  have und: "tooltipLeftTop (position t) d' pR aR tR = (Undefined, Undefined)" for d' pR aR tR
    using assms by (simp add: tooltipLeftTop_spec spec_placement_unrecognized)
  have "updatePosition e t =
           (if fitToVisibleBounds t \<and> priv_target t \<noteq> None \<and> offsetParent e \<noteq> None
            then t\<lparr>style := (style t)\<lparr>style_right := Auto, style_bottom := Auto\<rparr>\<rparr>
            else t)"
  proof (cases "priv_target t")
    case None
    then show ?thesis by (simp add: updatePosition_unresolved)
  next
    case (Some a)
    show ?thesis
    proof (cases "offsetParent e")
      case None
      then show ?thesis by (simp add: updatePosition_unresolved)
    next
      case (Some pR)
      show ?thesis
      proof (cases "fitToVisibleBounds t")
        case True
        with \<open>priv_target t = Some a\<close> Some
          updatePosition_fitted_undefined [OF \<open>priv_target t = Some a\<close> Some True und]
        show ?thesis by simp
      next
        case False
        with updatePosition_unconstrained [OF \<open>priv_target t = Some a\<close> Some False und]
        show ?thesis by (simp add: assign_def)
      qed
    qed
  qed
  with und show ?thesis by simp
qed

theorem updatePosition_unrecognized_side_center:
  "position unknown_side_tooltip \<notin> {''top'', ''bottom'', ''left'', ''right''}
   \<and> style (updatePosition scenario_env unknown_side_tooltip)
       = \<lparr>style_left = Auto, style_right = Auto, style_top = Px 84, style_bottom = Auto\<rparr>"
proof -
  have h: "position unknown_side_tooltip \<notin> {''top'', ''bottom'', ''left'', ''right''}"
    by (simp add: unknown_side_tooltip_def)
  from updatePosition_unrecognized_side [of unknown_side_tooltip 14
      "\<lparr>rect_left = 0, rect_top = 0, rect_width = 1024, rect_height = 768\<rparr>"
      "\<lparr>rect_left = 100, rect_top = 50, rect_width = 80, rect_height = 20\<rparr>"
      "\<lparr>rect_left = 0, rect_top = 0, rect_width = 60, rect_height = 24\<rparr>" scenario_env] h
  have "updatePosition scenario_env unknown_side_tooltip
          = unknown_side_tooltip\<lparr>style := (style unknown_side_tooltip)\<lparr>style_right := Auto, style_bottom := Auto\<rparr>\<rparr>"
    by (simp add: unknown_side_tooltip_def attached_tooltip_def scenario_env_def)
  then show ?thesis using h by (simp add: unknown_side_tooltip_def)
qed

text \<open>
  The claim C5 as first stated, that no placement value is applied to the styles for an
  unrecognized side, fails: a tooltip that an earlier run has anchored to the right edge
  (\<open>right = 0px\<close>) and whose side is then set to \<open>center\<close> has \<open>right\<close> reset to auto.
\<close>

theorem unrecognized_side_changes_styles:
  "position unknown_side_tooltip \<notin> {''top'', ''bottom'', ''left'', ''right''}
   \<and> style_right (style unknown_side_tooltip) = Px 0
   \<and> style_right (style (updatePosition scenario_env unknown_side_tooltip)) = Auto
   \<and> updatePosition scenario_env unknown_side_tooltip \<noteq> unknown_side_tooltip"
proof -
  have r: "style_right (style (updatePosition scenario_env unknown_side_tooltip)) = Auto"
    by (simp add: updatePosition_def tooltipLeftTop_def assign_def Let_def scenario_env_def
          unknown_side_tooltip_def attached_tooltip_def initial_tooltip_def)
  have p: "style_right (style unknown_side_tooltip) = Px 0"
    by (simp add: unknown_side_tooltip_def)
  from r p have "updatePosition scenario_env unknown_side_tooltip \<noteq> unknown_side_tooltip"
    by auto
  with r p show ?thesis by (simp add: unknown_side_tooltip_def)
qed

section \<open>Properties of showing and hiding\<close>

text \<open>
  A string is empty after trimming exactly when all of its code units are white space;
  the loop over the effective children would find them all empty exactly when each one
  is. No method \<open>getEffectiveChildNodes\<close> can be called on the element. \<open>updatePosition\<close>
  changes the styles only. \<open>show\<close> returns the element as it is when it shows already,
  ends by a \<open>TypeError\<close> with the element as it is when it is hidden and its text is
  empty after trimming, and returns it showing otherwise.
\<close>

lemma trim_empty_iff: "trim s = [] \<longleftrightarrow> (\<forall>c \<in> set s. isWhiteSpace c)"
proof -
  have "trim s = [] \<longleftrightarrow> dropWhile isWhiteSpace (rev (dropWhile isWhiteSpace s)) = []"
    by (simp add: trim_def)
  also have "\<dots> \<longleftrightarrow> (\<forall>c \<in> set (dropWhile isWhiteSpace s). isWhiteSpace c)"
    by (simp add: dropWhile_eq_Nil_conv)
  also have "\<dots> \<longleftrightarrow> (\<forall>c \<in> set s. isWhiteSpace c)"
  proof
    assume a: "\<forall>c \<in> set (dropWhile isWhiteSpace s). isWhiteSpace c"
    have "dropWhile isWhiteSpace s = []"
    proof (rule ccontr)
      assume "dropWhile isWhiteSpace s \<noteq> []"
      then have "\<not> isWhiteSpace (hd (dropWhile isWhiteSpace s))"
        by (rule hd_dropWhile)
      moreover from \<open>dropWhile isWhiteSpace s \<noteq> []\<close>
      have "hd (dropWhile isWhiteSpace s) \<in> set (dropWhile isWhiteSpace s)"
        by simp
      ultimately show False using a by blast
    qed
    then show "\<forall>c \<in> set s. isWhiteSpace c"
      by (simp add: dropWhile_eq_Nil_conv)
  next
    assume "\<forall>c \<in> set s. isWhiteSpace c"
    then show "\<forall>c \<in> set (dropWhile isWhiteSpace s). isWhiteSpace c"
      using set_dropWhileD by fastforce
  qed
  finally show ?thesis .
qed

lemma allChildrenEmpty_iff: "allChildrenEmpty cs \<longleftrightarrow> (\<forall>c \<in> set cs. trim c = [])"
  by (induction cs) auto

lemma no_getEffectiveChildNodes: "\<not> has_method ''getEffectiveChildNodes''"
  by (simp add: has_method_def TooltipElement_members_def PolymerElement_methods_def)

lemma TooltipElement_method_member:
  "TooltipElement_method name = Some m \<Longrightarrow> name \<in> set TooltipElement_members"
  by (simp add: TooltipElement_method_def TooltipElement_members_def split: if_splits)

lemma updatePosition_only_style: "updatePosition e t = t\<lparr>style := style (updatePosition e t)\<rparr>"
  by (simp add: updatePosition_def Let_def split: option.splits prod.splits)

lemma updatePosition_showing [simp]: "priv_showing (updatePosition e t) = priv_showing t"
  by (subst updatePosition_only_style) simp

lemma updatePosition_listeners [simp]: "listeners (updatePosition e t) = listeners t"
  by (subst updatePosition_only_style) simp

lemma updatePosition_classList [simp]: "tooltip_classList (updatePosition e t) = tooltip_classList t"
  by (subst updatePosition_only_style) simp

lemma updatePosition_target [simp]: "priv_target (updatePosition e t) = priv_target t"
  by (subst updatePosition_only_style) simp

lemma show_tooltip_showing: "priv_showing t \<Longrightarrow> show_tooltip e t = Normal t"
  by (simp add: show_tooltip_def)

lemma show_tooltip_empty_text:
  "\<not> priv_showing t \<Longrightarrow> trim (textContent e) = [] \<Longrightarrow> show_tooltip e t = Thrown TypeError t"
  by (simp add: show_tooltip_def no_getEffectiveChildNodes)

lemma show_tooltip_text:
  "\<not> priv_showing t \<Longrightarrow> trim (textContent e) \<noteq> [] \<Longrightarrow>
   show_tooltip e t =
     Normal (updatePosition e
               (t\<lparr>priv_showing := True,
                  tooltip_classList := toggleClass ''hidden'' (Some False) (tooltip_classList t)\<rparr>))"
  by (simp add: show_tooltip_def)

lemma show_tooltip_cases:
  "show_tooltip e t = Normal t \<or> show_tooltip e t = Thrown TypeError t
   \<or> (\<exists>u. show_tooltip e t = Normal u \<and> priv_showing u)"
  by (cases "priv_showing t"; cases "trim (textContent e) = []")
     (simp_all add: show_tooltip_showing show_tooltip_empty_text show_tooltip_text)

lemma show_tooltip_listeners [simp]: "listeners (state_of (show_tooltip e t)) = listeners t"
  by (cases "priv_showing t"; cases "trim (textContent e) = []")
     (simp_all add: show_tooltip_showing show_tooltip_empty_text show_tooltip_text)

lemma hide_tooltip_listeners [simp]: "listeners (hide_tooltip t) = listeners t"
  by (simp add: hide_tooltip_def)

lemma show_scenario: "show_tooltip scenario_env attached_tooltip = Normal shown_tooltip"
  by (simp add: show_tooltip_def updatePosition_def tooltipLeftTop_def assign_def Let_def
        toggleClass_def trim_def isWhiteSpace_def scenario_env_def shown_tooltip_def
        attached_tooltip_def initial_tooltip_def)

lemma toggleClass_hidden_roundtrip:
  assumes "''hidden'' \<in> set cl"
  shows "set (toggleClass ''hidden'' (Some True) (toggleClass ''hidden'' (Some False) cl)) = set cl"
  using assms by (auto simp: toggleClass_def)

lemma toggleClass_hidden_on: "''hidden'' \<in> set (toggleClass ''hidden'' (Some True) cl)"
  by (simp add: toggleClass_def)

text \<open>
  Claim C3. For a tooltip whose own text content and the text content of every effective
  child node are empty after trimming, \<open>show\<close> should be suppressed: no transition and
  no error. The code makes no transition, but it does not return: with a text of a
  space, a line feed and a tab and children that are all white space, on a hidden
  tooltip, \<open>show\<close> ends by
  a \<open>TypeError\<close> at the call of \<open>getEffectiveChildNodes\<close>, a method that the element
  does not have. The state stays hidden and the inner box keeps the class \<open>hidden\<close>.
\<close>

theorem show_throws_on_empty_content:
  "trim (textContent whitespace_env) = []
   \<and> map trim (getEffectiveChildNodes whitespace_env) = [[], [], []]
   \<and> \<not> priv_showing attached_tooltip
   \<and> ''hidden'' \<in> set (tooltip_classList attached_tooltip)
   \<and> \<not> has_method ''getEffectiveChildNodes''
   \<and> show_tooltip whitespace_env attached_tooltip = Thrown TypeError attached_tooltip"
proof -
  have h1: "trim (textContent whitespace_env) = []"
    by (simp add: whitespace_env_def scenario_env_def trim_def isWhiteSpace_def)
  have h3: "\<not> priv_showing attached_tooltip"
    and h4: "''hidden'' \<in> set (tooltip_classList attached_tooltip)"
    by (simp_all add: attached_tooltip_def initial_tooltip_def)
  have h5: "map trim (getEffectiveChildNodes whitespace_env) = [[], [], []]"
    by (simp add: whitespace_env_def scenario_env_def trim_def isWhiteSpace_def)
  from show_tooltip_empty_text [OF h3 h1] h1 h3 h4 h5 no_getEffectiveChildNodes
  show ?thesis by simp
qed

text \<open>
  Claim C4. \<open>show\<close> in the showing state and \<open>hide\<close> in the hidden state change nothing.
  In every starting state, \<open>show\<close> twice in a row gives the outcome that \<open>show\<close> once
  gives, whether the second call follows a return of the first or the state that the
  first has left; once the tooltip shows, a second \<open>show\<close> changes nothing whatever the
  layout has become, so the position is not computed a second time; and the table of
  listeners is the one before the calls.
\<close>

theorem show_hide_idempotent:
  "(priv_showing t \<longrightarrow> show_tooltip e t = Normal t)
   \<and> (\<not> priv_showing t \<longrightarrow> hide_tooltip t = t)
   \<and> and_then (show_tooltip e t) (show_tooltip e) = show_tooltip e t
   \<and> show_tooltip e (state_of (show_tooltip e t)) = show_tooltip e t
   \<and> (priv_showing (state_of (show_tooltip e t)) \<longrightarrow>
        show_tooltip e' (state_of (show_tooltip e t)) = Normal (state_of (show_tooltip e t)))
   \<and> listeners (state_of (show_tooltip e (state_of (show_tooltip e t)))) = listeners t"
proof -
  have twice: "show_tooltip e (state_of (show_tooltip e t)) = show_tooltip e t"
    using show_tooltip_cases [of e t] by (auto simp: show_tooltip_showing)
  have seq: "and_then (show_tooltip e t) (show_tooltip e) = show_tooltip e t"
    using show_tooltip_cases [of e t] by (auto simp: show_tooltip_showing)
  have "listeners (state_of (show_tooltip e (state_of (show_tooltip e t)))) = listeners t"
    by simp
  with twice seq show ?thesis
    by (simp add: show_tooltip_showing hide_tooltip_def)
qed

theorem show_hide_idempotent_scenario:
  "priv_showing shown_tooltip
   \<and> show_tooltip scrolled_env shown_tooltip = Normal shown_tooltip
   \<and> \<not> priv_showing attached_tooltip
   \<and> hide_tooltip attached_tooltip = attached_tooltip
   \<and> show_tooltip scenario_env attached_tooltip = Normal shown_tooltip
   \<and> and_then (show_tooltip scenario_env attached_tooltip) (show_tooltip scenario_env)
       = Normal shown_tooltip
   \<and> show_tooltip scenario_env (state_of (show_tooltip scenario_env attached_tooltip))
       = Normal shown_tooltip
   \<and> show_tooltip scrolled_env (state_of (show_tooltip scenario_env attached_tooltip))
       = Normal shown_tooltip
   \<and> listeners (state_of (show_tooltip scenario_env
                              (state_of (show_tooltip scenario_env attached_tooltip))))
       = listeners attached_tooltip"
proof -
  have s: "priv_showing shown_tooltip"
    by (simp add: shown_tooltip_def)
  have h: "\<not> priv_showing attached_tooltip"
    by (simp add: attached_tooltip_def initial_tooltip_def)
  note a = show_hide_idempotent [of shown_tooltip scrolled_env scrolled_env]
  note b = show_hide_idempotent [of attached_tooltip scenario_env scrolled_env]
  from a s have 1: "show_tooltip scrolled_env shown_tooltip = Normal shown_tooltip" by blast
  from b h have 2: "hide_tooltip attached_tooltip = attached_tooltip" by blast
  from b have 3: "and_then (show_tooltip scenario_env attached_tooltip) (show_tooltip scenario_env)
                    = show_tooltip scenario_env attached_tooltip" by blast
  from b have 4: "show_tooltip scenario_env (state_of (show_tooltip scenario_env attached_tooltip))
                    = show_tooltip scenario_env attached_tooltip" by blast
  from b have "priv_showing (state_of (show_tooltip scenario_env attached_tooltip)) \<longrightarrow>
                 show_tooltip scrolled_env (state_of (show_tooltip scenario_env attached_tooltip))
                   = Normal (state_of (show_tooltip scenario_env attached_tooltip))"
    by blast
  with s have 5: "show_tooltip scrolled_env (state_of (show_tooltip scenario_env attached_tooltip))
                    = Normal shown_tooltip"
    by (simp add: show_scenario)
  from b have 6: "listeners (state_of (show_tooltip scenario_env
                                         (state_of (show_tooltip scenario_env attached_tooltip))))
                    = listeners attached_tooltip" by blast
  from s 1 h 2 3 4 5 6 show ?thesis by (simp add: show_scenario)
qed

text \<open>
  Claim C9. For every hidden tooltip (the flag \<open>_showing\<close> false, the class \<open>hidden\<close> on
  the inner box), \<open>show\<close> followed by \<open>hide\<close> gives a hidden tooltip again: the flag is
  false, the inner box carries the class \<open>hidden\<close>, and its classes are those of before.
  Only the styles that \<open>show\<close> has computed remain.
\<close>

theorem show_then_hide_restores_hidden:
  assumes "\<not> priv_showing t" and "''hidden'' \<in> set (tooltip_classList t)"
  shows "\<not> priv_showing (hide_tooltip (state_of (show_tooltip e t)))
       \<and> ''hidden'' \<in> set (tooltip_classList (hide_tooltip (state_of (show_tooltip e t))))
       \<and> set (tooltip_classList (hide_tooltip (state_of (show_tooltip e t))))
           = set (tooltip_classList t)
       \<and> (tooltip_classList t = [''hidden''] \<longrightarrow>
            tooltip_classList (hide_tooltip (state_of (show_tooltip e t))) = [''hidden''])
       \<and> hide_tooltip (state_of (show_tooltip e t))
           = t\<lparr>tooltip_classList := tooltip_classList (hide_tooltip (state_of (show_tooltip e t))),
                style := style (state_of (show_tooltip e t))\<rparr>"
proof (cases "trim (textContent e) = []")
  case True
  with assms(1) have "state_of (show_tooltip e t) = t"
    by (simp add: show_tooltip_empty_text)
  with assms show ?thesis
    by (simp add: hide_tooltip_def)
next
  case False
  let ?u = "t\<lparr>priv_showing := True,
               tooltip_classList := toggleClass ''hidden'' (Some False) (tooltip_classList t)\<rparr>"
  from False assms(1) have sh: "state_of (show_tooltip e t) = updatePosition e ?u"
    by (simp add: show_tooltip_text)
  have up: "updatePosition e ?u = ?u\<lparr>style := style (updatePosition e ?u)\<rparr>"
    by (rule updatePosition_only_style)
  have hd: "hide_tooltip (state_of (show_tooltip e t))
              = t\<lparr>tooltip_classList :=
                     toggleClass ''hidden'' (Some True)
                       (toggleClass ''hidden'' (Some False) (tooltip_classList t)),
                   style := style (updatePosition e ?u)\<rparr>"
    unfolding sh by (subst up) (simp add: hide_tooltip_def assms(1))
  show ?thesis
    unfolding hd using assms
    by (simp add: sh toggleClass_hidden_roundtrip toggleClass_hidden_on)
       (simp add: toggleClass_def)
qed

theorem show_then_hide_scenario:
  "\<not> priv_showing attached_tooltip
   \<and> ''hidden'' \<in> set (tooltip_classList attached_tooltip)
   \<and> hide_tooltip (state_of (show_tooltip scenario_env attached_tooltip))
       = attached_tooltip
           \<lparr>style := \<lparr>style_left = Px 110, style_right = Unset, style_top = Px 84, style_bottom = Unset\<rparr>\<rparr>
   \<and> \<not> priv_showing (hide_tooltip (state_of (show_tooltip scenario_env attached_tooltip)))
   \<and> tooltip_classList (hide_tooltip (state_of (show_tooltip scenario_env attached_tooltip)))
       = [''hidden'']"
proof -
  let ?r = "hide_tooltip (state_of (show_tooltip scenario_env attached_tooltip))"
  have h1: "\<not> priv_showing attached_tooltip"
    and h2: "''hidden'' \<in> set (tooltip_classList attached_tooltip)"
    and h3: "tooltip_classList attached_tooltip = [''hidden'']"
    by (simp_all add: attached_tooltip_def initial_tooltip_def)
  note r = show_then_hide_restores_hidden [OF h1 h2, of scenario_env]
  from r have a: "\<not> priv_showing ?r"
    by blast
  from r h3 have b: "tooltip_classList ?r = [''hidden'']"
    by blast
  from r have eq: "?r = attached_tooltip\<lparr>tooltip_classList := tooltip_classList ?r,
                style := style (state_of (show_tooltip scenario_env attached_tooltip))\<rparr>"
    by blast
  have st: "style (state_of (show_tooltip scenario_env attached_tooltip))
              = \<lparr>style_left = Px 110, style_right = Unset, style_top = Px 84, style_bottom = Unset\<rparr>"
    unfolding show_scenario by (simp add: shown_tooltip_def)
  have "?r = attached_tooltip
              \<lparr>tooltip_classList := [''hidden''],
               style := \<lparr>style_left = Px 110, style_right = Unset, style_top = Px 84, style_bottom = Unset\<rparr>\<rparr>"
    using eq by (simp only: b st)
  also have "\<dots> = attached_tooltip
           \<lparr>style := \<lparr>style_left = Px 110, style_right = Unset, style_top = Px 84, style_bottom = Unset\<rparr>\<rparr>"
    by (simp add: attached_tooltip_def initial_tooltip_def)
  finally have c: "?r = attached_tooltip
           \<lparr>style := \<lparr>style_left = Px 110, style_right = Unset, style_top = Px 84, style_bottom = Unset\<rparr>\<rparr>" .
  from h1 h2 a b c show ?thesis by simp
qed

section \<open>Properties of target resolution and the lifecycle\<close>

text \<open>
  Resolution without a structural parent ends by a \<open>TypeError\<close>, and resolution whose
  lookup throws ends by that exception, in both cases after the listeners have been
  removed. Resolution reads the element through its property \<open>for\<close> alone.
\<close>

lemma target_without_parent: "parentNode e = None \<Longrightarrow> target e t = Inl TypeError"
  by (simp add: target_def)

lemma priv_removeListeners_for [simp]: "for_attr (priv_removeListeners e t) = for_attr t"
  by (simp add: priv_removeListeners_def Let_def)

lemma target_for_attr: "for_attr t' = for_attr t \<Longrightarrow> target e t' = target e t"
  by (cases "parentNode e") (simp_all add: target_def Let_def)

lemma priv_findTarget_without_parent:
  "parentNode e = None \<Longrightarrow> priv_findTarget e t = Thrown TypeError (priv_removeListeners e t)"
  by (simp add: priv_findTarget_def Let_def target_without_parent)

lemma priv_findTarget_lookup_throws:
  assumes "parentNode e = Some p" and "for_attr t = Some (c # cs)"
    and "querySelector e (getRootNode e p) (''#'' @ c # cs) = Inl err"
  shows "priv_findTarget e t = Thrown err (priv_removeListeners e t)"
proof -
  have "target e t = Inl err"
    using assms by (simp add: target_def Let_def)
  then have "target e (priv_removeListeners e t) = Inl err"
    by (simp add: target_for_attr [of "priv_removeListeners e t" t])
  then show ?thesis by (simp add: priv_findTarget_def Let_def)
qed

lemma priv_addListeners_target [simp]: "priv_target (priv_addListeners e t) = priv_target t"
  by (simp add: priv_addListeners_def Let_def)




text \<open>
  The lifecycle as the class body answers it: an attach runs \<open>connectedCallback\<close>; a
  detach finds no method named \<open>disconnectedCallback\<close> in the class body and runs the
  inherited one, which leaves the listeners as they are. The method \<open>disconnectCallback\<close>
  of the class body is no lifecycle method, and its call of a method of that name in
  the base class is a \<open>TypeError\<close>.
\<close>

lemma lifecycle_Detach: "lifecycle Detach e t = Normal t"
  by (simp add: lifecycle_def reaction_callback_def TooltipElement_method_def super_call_def
        PolymerElement_methods_def)

lemma lifecycle_Attach: "lifecycle Attach e t = connectedCallback e t"
  by (simp add: lifecycle_def reaction_callback_def TooltipElement_method_def)

lemma disconnectCallback_throws: "disconnectCallback e t = Thrown TypeError t"
  by (simp add: disconnectCallback_def super_call_def PolymerElement_methods_def)

lemma attach_scenario: "lifecycle Attach scenario_env initial_tooltip = Normal attached_tooltip"
  unfolding lifecycle_Attach
  by (simp add: connectedCallback_def super_call_def PolymerElement_methods_def
        priv_findTarget_def target_def priv_removeListeners_def priv_addListeners_def
        addEventListener_def removeEventListener_def Let_def scenario_env_def
        attached_tooltip_def initial_tooltip_def)

lemma reattach_scenario: "lifecycle Attach moved_env attached_tooltip = Normal reattached_tooltip"
  unfolding lifecycle_Attach
  by (simp add: connectedCallback_def super_call_def PolymerElement_methods_def
        priv_findTarget_def target_def priv_removeListeners_def priv_addListeners_def
        addEventListener_def removeEventListener_def Let_def moved_env_def scenario_env_def
        reattached_tooltip_def attached_tooltip_def initial_tooltip_def)

text \<open>
  The wiring: \<open>_removeListeners\<close> removes from the table exactly the listeners of the
  current anchor and the current bound functions, \<open>_addListeners\<close> adds exactly those.
  So when the table holds exactly the listeners of the current anchor, it does so again
  after \<open>_findTarget\<close>, and every listener is on the new anchor or on the tooltip itself.
  This holds after the first attach and after every change of the property \<open>for\<close>; the
  scenario is the switch from \<open>btnA\<close> to \<open>btnB\<close>.
\<close>

lemma set_addEventListener:
  "set (addEventListener n ty cb ls) = (case cb of None \<Rightarrow> set ls | Some h \<Rightarrow> insert (n, ty, h) (set ls))"
  by (auto simp: addEventListener_def split: option.splits)

lemma set_removeEventListener:
  "set (removeEventListener n ty cb ls) = (case cb of None \<Rightarrow> set ls | Some h \<Rightarrow> set ls - {(n, ty, h)})"
  by (auto simp: removeEventListener_def split: option.splits)

lemma priv_removeListeners_set:
  "set (listeners (priv_removeListeners e t)) = set (listeners t) - installed e t"
proof (cases "priv_target t")
  case None
  then show ?thesis
    by (cases "priv_boundShow t"; cases "priv_boundHide t")
       (auto simp: priv_removeListeners_def installed_def set_removeEventListener)
next
  case (Some tg)
  then show ?thesis
    by (cases "priv_boundShow t"; cases "priv_boundHide t")
       (auto simp: priv_removeListeners_def installed_def set_removeEventListener)
qed

lemma priv_removeListeners_installed:
  assumes "set (listeners t) = installed e t"
  shows "listeners (priv_removeListeners e t) = []"
proof -
  have "set (listeners (priv_removeListeners e t)) = {}"
    unfolding priv_removeListeners_set using assms by blast
  then show ?thesis by (simp only: set_empty)
qed

lemma priv_addListeners_set:
  "set (listeners (priv_addListeners e t)) = set (listeners t) \<union> installed e t"
proof (cases "priv_target t")
  case None
  then show ?thesis
    by (cases "priv_boundShow t"; cases "priv_boundHide t")
       (simp_all add: priv_addListeners_def installed_def set_addEventListener)
next
  case (Some tg)
  then show ?thesis
    by (cases "priv_boundShow t"; cases "priv_boundHide t")
       (auto simp: priv_addListeners_def installed_def set_addEventListener)
qed

lemma priv_removeListeners_fields [simp]:
  "priv_boundShow (priv_removeListeners e t) = priv_boundShow t"
  "priv_boundHide (priv_removeListeners e t) = priv_boundHide t"
  "priv_target (priv_removeListeners e t) = priv_target t"
  by (simp_all add: priv_removeListeners_def Let_def)

lemma priv_addListeners_fields [simp]:
  "priv_boundShow (priv_addListeners e t) = priv_boundShow t"
  "priv_boundHide (priv_addListeners e t) = priv_boundHide t"
  by (simp_all add: priv_addListeners_def Let_def)

lemma installed_fields:
  assumes "priv_target t' = priv_target t" and "priv_boundShow t' = priv_boundShow t"
    and "priv_boundHide t' = priv_boundHide t"
  shows "installed e t' = installed e t"
  using assms by (simp add: installed_def cong: option.case_cong)

lemma priv_findTarget_rewires:
  assumes "set (listeners t) = installed e t" and "priv_findTarget e t = Normal t'"
  shows "set (listeners t') = installed e t'"
    and "\<forall>l \<in> set (listeners t'). fst l = this_node e \<or> Some (fst l) = priv_target t'"
proof -
  let ?u = "(priv_removeListeners e t)\<lparr>priv_target := priv_target t'\<rparr>"
  from assms(2) obtain tg
    where "target e (priv_removeListeners e t) = Inr tg"
      and "t' = priv_addListeners e ((priv_removeListeners e t)\<lparr>priv_target := tg\<rparr>)"
    by (auto simp: priv_findTarget_def Let_def split: sum.splits)
  then have t': "t' = priv_addListeners e ?u"
    by simp
  have "listeners ?u = []"
    using priv_removeListeners_installed [OF assms(1)] by simp
  then have "set (listeners (priv_addListeners e ?u)) = installed e ?u"
    by (simp add: priv_addListeners_set)
  also have "installed e ?u = installed e (priv_addListeners e ?u)"
    by (rule installed_fields [symmetric]) simp_all
  finally show 1: "set (listeners t') = installed e t'"
    using t' by simp
  show "\<forall>l \<in> set (listeners t'). fst l = this_node e \<or> Some (fst l) = priv_target t'"
    unfolding 1 by (auto simp: installed_def split: option.splits)
qed

lemma anchor_switch_scenario:
  "set_for (Some ''btnA'') scenario_env attached_tooltip
     = Normal (attached_tooltip
         \<lparr>for_attr := Some ''btnA'', priv_target := Some 2,
          listeners := [(2, ''mouseenter'', BoundShow 0), (2, ''focus'', BoundShow 0),
                        (2, ''mouseleave'', BoundHide 1), (2, ''blur'', BoundHide 1),
                        (2, ''tap'', BoundHide 1), (0, ''mouseenter'', BoundHide 1)]\<rparr>)"
  "set_for (Some ''btnB'') scenario_env
     (attached_tooltip
         \<lparr>for_attr := Some ''btnA'', priv_target := Some 2,
          listeners := [(2, ''mouseenter'', BoundShow 0), (2, ''focus'', BoundShow 0),
                        (2, ''mouseleave'', BoundHide 1), (2, ''blur'', BoundHide 1),
                        (2, ''tap'', BoundHide 1), (0, ''mouseenter'', BoundHide 1)]\<rparr>)
     = Normal (attached_tooltip
         \<lparr>for_attr := Some ''btnB'', priv_target := Some 3,
          listeners := [(3, ''mouseenter'', BoundShow 0), (3, ''focus'', BoundShow 0),
                        (3, ''mouseleave'', BoundHide 1), (3, ''blur'', BoundHide 1),
                        (3, ''tap'', BoundHide 1), (0, ''mouseenter'', BoundHide 1)]\<rparr>)"
  by (simp_all add: set_for_def priv_findTarget_def target_def priv_removeListeners_def
        priv_addListeners_def addEventListener_def removeEventListener_def Let_def
        scenario_env_def attached_tooltip_def initial_tooltip_def)

lemma set_for_rewires:
  assumes "set (listeners t) = installed e t" and "set_for v e t = Normal t'"
  shows "set (listeners t') = installed e t'"
proof (cases "v = for_attr t")
  case True
  with assms show ?thesis by (simp add: set_for_def)
next
  case False
  with assms(2) have f: "priv_findTarget e (t\<lparr>for_attr := v\<rparr>) = Normal t'"
    by (simp add: set_for_def)
  have "installed e (t\<lparr>for_attr := v\<rparr>) = installed e t"
    by (rule installed_fields) simp_all
  with assms(1) have "set (listeners (t\<lparr>for_attr := v\<rparr>)) = installed e (t\<lparr>for_attr := v\<rparr>)"
    by simp
  from priv_findTarget_rewires(1) [OF this f] show ?thesis .
qed

lemma first_attach_wires:
  assumes "listeners t = []" and "lifecycle Attach e t = Normal t'"
  shows "set (listeners t') = installed e t'"
proof -
  let ?t1 = "t\<lparr>priv_boundShow := Some (BoundShow (binds t)), binds := Suc (binds t)\<rparr>"
  let ?t2 = "?t1\<lparr>priv_boundHide := Some (BoundHide (binds ?t1)), binds := Suc (binds ?t1)\<rparr>"
  from assms(2) have f: "priv_findTarget e ?t2 = Normal t'"
    by (simp add: lifecycle_Attach connectedCallback_def super_call_def
          PolymerElement_methods_def Let_def)
  have "listeners (priv_removeListeners e ?t2) = []"
  proof -
    have "set (listeners (priv_removeListeners e ?t2)) = {}"
      unfolding priv_removeListeners_set using assms(1) by simp
    then show ?thesis by (simp only: set_empty)
  qed
  from f obtain tg
    where "t' = priv_addListeners e ((priv_removeListeners e ?t2)\<lparr>priv_target := tg\<rparr>)"
    by (auto simp: priv_findTarget_def Let_def split: sum.splits)
  then have t': "t' = priv_addListeners e ((priv_removeListeners e ?t2)\<lparr>priv_target := priv_target t'\<rparr>)"
    by simp
  let ?u = "(priv_removeListeners e ?t2)\<lparr>priv_target := priv_target t'\<rparr>"
  have "set (listeners (priv_addListeners e ?u)) = installed e ?u"
    using \<open>listeners (priv_removeListeners e ?t2) = []\<close> by (simp add: priv_addListeners_set)
  also have "installed e ?u = installed e (priv_addListeners e ?u)"
    by (rule installed_fields [symmetric]) simp_all
  finally show ?thesis using t' by simp
qed





text \<open>
  Claim C7. On lifecycle detach the listeners of the component should be removed. The
  code does not do so: after the attach has installed six listeners, the detach looks for
  a method \<open>disconnectedCallback\<close>, the class body has none (its method is spelled
  \<open>disconnectCallback\<close>), and the six listeners are all still registered. Called by hand,
  \<open>disconnectCallback\<close> ends by a \<open>TypeError\<close> before it removes any.
\<close>

theorem detach_keeps_listeners:
  "lifecycle Attach scenario_env initial_tooltip = Normal attached_tooltip
   \<and> listeners attached_tooltip =
        [(1, ''mouseenter'', BoundShow 0), (1, ''focus'', BoundShow 0),
         (1, ''mouseleave'', BoundHide 1), (1, ''blur'', BoundHide 1),
         (1, ''tap'', BoundHide 1), (0, ''mouseenter'', BoundHide 1)]
   \<and> reaction_callback Detach = ''disconnectedCallback''
   \<and> TooltipElement_method ''disconnectedCallback'' = None
   \<and> lifecycle Detach scenario_env attached_tooltip = Normal attached_tooltip
   \<and> disconnectCallback scenario_env attached_tooltip = Thrown TypeError attached_tooltip"
  by (simp add: attach_scenario lifecycle_Detach disconnectCallback_throws reaction_callback_def
        TooltipElement_method_def attached_tooltip_def)

text \<open>
  Claim C8. After every re-resolution, listeners should be on the current anchor only.
  The code breaks this when the element is moved: attached under node 1, detached, then
  attached under node 4. The detach removes nothing, the second attach makes new bound
  functions before \<open>_findTarget\<close> runs, so \<open>_removeListeners\<close> asks to remove functions
  that were never registered, and the five listeners on node 1 remain while the anchor
  is node 4: twelve listeners are registered, six of them stale.
\<close>

theorem reattach_leaves_stale_listeners:
  "lifecycle Attach scenario_env initial_tooltip = Normal attached_tooltip
   \<and> lifecycle Detach scenario_env attached_tooltip = Normal attached_tooltip
   \<and> lifecycle Attach moved_env attached_tooltip = Normal reattached_tooltip
   \<and> priv_target reattached_tooltip = Some 4
   \<and> (1, ''mouseenter'', BoundShow 0) \<in> set (listeners reattached_tooltip)
   \<and> (1, ''tap'', BoundHide 1) \<in> set (listeners reattached_tooltip)
   \<and> length (listeners reattached_tooltip) = 12"
  by (simp add: attach_scenario lifecycle_Detach reattach_scenario)
     (simp add: reattached_tooltip_def attached_tooltip_def)

end
